theory Spec2Isabelle
  imports Main "HOL-Library.Multiset"
begin

section \<open>Python values and exceptions\<close>

text \<open>
  The analyzer interface (\<^verbatim>\<open>timesketch/lib/analyzers/interface.py\<close>) passes untyped
  Python values between the search backend, the relational store and the analyzer.
  The values that occur are \<^verbatim>\<open>None\<close>, strings, integers, lists and dictionaries with
  string keys (an association list, first binding wins).
\<close>

datatype pyval =
    PNone
  | PStr string
  | PInt int
  | PList "pyval list"
  | PDict "(string \<times> pyval) list"

text \<open>The exceptions the module raises or lets through, as values.\<close>

datatype error =
    KeyError string
  | RuntimeError string
  | ValueError string
  | NotImplementedError
  | AttributeError
  | TypeError
  | BackendError string

text \<open>Python truthiness, as tested by \<^verbatim>\<open>if not x\<close>.\<close>

fun truthy :: "pyval \<Rightarrow> bool" where
  "truthy PNone = False"
| "truthy (PStr s) = (s \<noteq> [])"
| "truthy (PInt i) = (i \<noteq> 0)"
| "truthy (PList xs) = (xs \<noteq> [])"
| "truthy (PDict d) = (d \<noteq> [])"

text \<open>
  \<^verbatim>\<open>d.get(key, default)\<close> on a dictionary. It never raises: a missing key gives the
  default. The result type still is a sum, so that a \<^verbatim>\<open>try\<close> around it has a handler
  branch in the model as it has in the source.
\<close>

definition dict_get :: "(string \<times> pyval) list \<Rightarrow> string \<Rightarrow> pyval \<Rightarrow> error + pyval" where
  "dict_get d key dflt = (case map_of d key of None \<Rightarrow> Inr dflt | Some v \<Rightarrow> Inr v)"

text \<open>Iterating a value: lists give their elements, strings their characters,
  dictionaries their keys; \<^verbatim>\<open>None\<close> and integers are not iterable.\<close>

fun py_iter :: "pyval \<Rightarrow> error + pyval list" where
  "py_iter (PList xs) = Inr xs"
| "py_iter (PStr s) = Inr (map (\<lambda>c. PStr [c]) s)"
| "py_iter (PDict d) = Inr (map (\<lambda>kv. PStr (fst kv)) d)"
| "py_iter PNone = Inl TypeError"
| "py_iter (PInt i) = Inl TypeError"

text \<open>Only hashable values can be members of a Python set.\<close>

fun hashable :: "pyval \<Rightarrow> bool" where
  "hashable (PList xs) = False"
| "hashable (PDict d) = False"
| "hashable v = True"

text \<open>
  \<^verbatim>\<open>list(set().union(a, b))\<close>. Python leaves the iteration order of a set open; the
  model lists the members in order of first occurrence. Only membership and the absence
  of duplicates are ever used of this order.
\<close>

definition set_union_list :: "pyval \<Rightarrow> pyval \<Rightarrow> error + pyval list" where
  "set_union_list a b =
     (case py_iter a of
        Inl e \<Rightarrow> Inl e
      | Inr xs \<Rightarrow>
          (case py_iter b of
             Inl e \<Rightarrow> Inl e
           | Inr ys \<Rightarrow>
               if list_all hashable (xs @ ys) then Inr (remdups (xs @ ys))
               else Inl TypeError))"


section \<open>The external collaborators\<close>

text \<open>
  Every call that reaches the search backend, and every commit of the relational
  session, is recorded in program order, as a spy on the collaborators would.
\<close>

datatype call =
    ImportEvent pyval pyval pyval pyval
  | SetLabel pyval pyval pyval int int string bool bool
  | FlushQueuedEvents
  | Refresh pyval
  | SearchStream pyval pyval pyval pyval
  | Commit

record sql_comment =
  comment_text :: string
  comment_user :: "int option"

record sql_event =
  ev_sketch :: "int option"
  ev_searchindex :: "pyval option"
  ev_document_id :: pyval
  ev_comments :: "sql_comment list"

record view =
  view_name :: pyval
  view_sketch :: "int option"
  view_user :: "int option"
  view_query_string :: pyval
  view_query_filter :: pyval
  view_query_dsl :: pyval
  view_searchtemplate :: "int option"

record database =
  db_events :: "sql_event list"
  db_views :: "view list"

text \<open>
  The state outside the analyzer: the call log, the MutationQueue of the datastore
  (pending and flushed updates, each an index, a type, an event id and a document), and
  the relational store (the rows of sketches by id, of search indices by index name, the
  session's working copy and the committed copy of events and views).
\<close>

record world =
  calls :: "call list"
  queue :: "(pyval \<times> pyval \<times> pyval \<times> pyval) list"
  flushed :: "(pyval \<times> pyval \<times> pyval \<times> pyval) list"
  sketches :: "int list"
  searchindices :: "pyval list"
  session :: database
  committed :: database

type_synonym hit = "(string \<times> pyval) list"

text \<open>
  What the source cannot determine of its collaborators is a parameter: the mapping
  \<^verbatim>\<open>set_label\<close> returns (or the exception it raises), the hits a streaming search
  returns, and the filter \<^verbatim>\<open>View.validate_filter\<close> returns.
\<close>

record backend =
  set_label_result ::
    "world \<Rightarrow> pyval \<Rightarrow> pyval \<Rightarrow> pyval \<Rightarrow> int \<Rightarrow> int \<Rightarrow> string \<Rightarrow> bool \<Rightarrow> bool \<Rightarrow> error + pyval"
  search_stream_result ::
    "world \<Rightarrow> pyval \<Rightarrow> pyval \<Rightarrow> pyval \<Rightarrow> pyval \<Rightarrow> error + hit list"
  validate_filter_result :: "view \<Rightarrow> pyval \<Rightarrow> pyval"

text \<open>
  Modelled from the spec: \<^verbatim>\<open>ElasticsearchDataStore.import_event\<close> is not part of the
  module. The spec gives \<^verbatim>\<open>import_event(index, type, event_id, event) -> void\<close>, which
  enqueues a partial update of the document in the MutationQueue.
\<close>

definition import_event :: "pyval \<Rightarrow> pyval \<Rightarrow> pyval \<Rightarrow> pyval \<Rightarrow> world \<Rightarrow> (error + unit) \<times> world" where
  "import_event index_name event_type event_id event w =
     (Inr (),
      w\<lparr>calls := calls w @ [ImportEvent index_name event_type event_id event],
        queue := queue w @ [(index_name, event_type, event_id, event)]\<rparr>)"

text \<open>
  Modelled from the spec: \<^verbatim>\<open>ElasticsearchDataStore.flush_queued_events\<close> is not part
  of the module. The spec gives \<^verbatim>\<open>flush_queued_events() -> void\<close>, which applies all
  pending writes of the MutationQueue.
\<close>

definition flush_queued_events :: "world \<Rightarrow> (error + unit) \<times> world" where
  "flush_queued_events w =
     (Inr (),
      w\<lparr>calls := calls w @ [FlushQueuedEvents],
        flushed := flushed w @ queue w,
        queue := []\<rparr>)"

text \<open>
  Modelled from the spec: \<^verbatim>\<open>ElasticsearchDataStore.set_label\<close> is not part of the
  module. The spec gives \<^verbatim>\<open>set_label(index, event_id, type, sketch_id, user_id, label,
  toggle, single_update) -> updated mapping\<close>; which mapping, or which exception, is the
  backend's.
\<close>

definition set_label ::
  "backend \<Rightarrow> pyval \<Rightarrow> pyval \<Rightarrow> pyval \<Rightarrow> int \<Rightarrow> int \<Rightarrow> string \<Rightarrow> bool \<Rightarrow> bool \<Rightarrow> world
    \<Rightarrow> (error + pyval) \<times> world" where
  "set_label B index_name event_id event_type sketch_id user_id label toggle single_update w =
     (set_label_result B w index_name event_id event_type sketch_id user_id label toggle single_update,
      w\<lparr>calls := calls w @
        [SetLabel index_name event_id event_type sketch_id user_id label toggle single_update]\<rparr>)"

text \<open>
  Modelled from the spec: the client's \<^verbatim>\<open>indices.refresh\<close> is not part of the module.
  The spec gives \<^verbatim>\<open>refresh(index) -> void\<close>.
\<close>

definition refresh :: "pyval \<Rightarrow> world \<Rightarrow> (error + unit) \<times> world" where
  "refresh index w = (Inr (), w\<lparr>calls := calls w @ [Refresh index]\<rparr>)"

text \<open>
  Modelled from the spec: \<^verbatim>\<open>ElasticsearchDataStore.search_stream\<close> is not part of the
  module. The spec gives \<^verbatim>\<open>streaming_search(query_string, query_filter, indices,
  return_fields)\<close>, a finite sequence of raw hits; which hits is the backend's.
\<close>

definition search_stream ::
  "backend \<Rightarrow> pyval \<Rightarrow> pyval \<Rightarrow> pyval \<Rightarrow> pyval \<Rightarrow> world \<Rightarrow> (error + hit list) \<times> world" where
  "search_stream B query_string query_filter indices return_fields w =
     (search_stream_result B w query_string query_filter indices return_fields,
      w\<lparr>calls := calls w @ [SearchStream query_string query_filter indices return_fields]\<rparr>)"


text \<open>
  Modelled from the spec: the relational models (\<^verbatim>\<open>timesketch.models\<close>) are not part
  of the module. The spec gives: sketch lookup by id; search-index lookup by index name;
  get-or-create of a per-document relational Event keyed by (sketch, searchindex,
  document id); append-and-commit of a Comment; create-and-commit of a View. A sketch row
  is identified by its id, a search-index row by its index name, and a relational Event
  in the session by its position among the session's events.
\<close>

definition SQLSketch_get :: "world \<Rightarrow> int option \<Rightarrow> int option" where
  "SQLSketch_get w sketch_id =
     (case sketch_id of
        None \<Rightarrow> None
      | Some i \<Rightarrow> if i \<in> set (sketches w) then Some i else None)"

definition SearchIndex_first :: "world \<Rightarrow> pyval \<Rightarrow> pyval option" where
  "SearchIndex_first w index_name =
     (if index_name \<in> set (searchindices w) then Some index_name else None)"

fun find_event :: "int option \<Rightarrow> pyval option \<Rightarrow> pyval \<Rightarrow> sql_event list \<Rightarrow> nat option" where
  "find_event sk si doc [] = None"
| "find_event sk si doc (e # es) =
     (if ev_sketch e = sk \<and> ev_searchindex e = si \<and> ev_document_id e = doc then Some 0
      else map_option Suc (find_event sk si doc es))"

definition SQLEvent_get_or_create ::
  "int option \<Rightarrow> pyval option \<Rightarrow> pyval \<Rightarrow> world \<Rightarrow> nat \<times> world" where
  "SQLEvent_get_or_create sketch searchindex document_id w =
     (case find_event sketch searchindex document_id (db_events (session w)) of
        Some i \<Rightarrow> (i, w)
      | None \<Rightarrow>
          (length (db_events (session w)),
           w\<lparr>session := (session w)\<lparr>db_events := db_events (session w) @
             [\<lparr>ev_sketch = sketch, ev_searchindex = searchindex,
               ev_document_id = document_id, ev_comments = []\<rparr>]\<rparr>\<rparr>))"

text \<open>\<^verbatim>\<open>db_event.comments.append(comment)\<close> on the session's row.\<close>

definition comments_append :: "nat \<Rightarrow> sql_comment \<Rightarrow> world \<Rightarrow> world" where
  "comments_append db_event c w =
     (if db_event < length (db_events (session w))
      then w\<lparr>session := (session w)\<lparr>db_events := (db_events (session w))
             [db_event := (db_events (session w) ! db_event)
                \<lparr>ev_comments := ev_comments (db_events (session w) ! db_event) @ [c]\<rparr>]\<rparr>\<rparr>
      else w)"

text \<open>\<^verbatim>\<open>db_session.add(db_event)\<close>: the row already belongs to the session.\<close>

definition db_session_add_event :: "nat \<Rightarrow> world \<Rightarrow> world" where
  "db_session_add_event db_event w = w"

text \<open>\<^verbatim>\<open>db_session.add(view)\<close>: a new row of the session.\<close>

definition db_session_add_view :: "view \<Rightarrow> world \<Rightarrow> world" where
  "db_session_add_view v w = w\<lparr>session := (session w)\<lparr>db_views := db_views (session w) @ [v]\<rparr>\<rparr>"

text \<open>\<^verbatim>\<open>db_session.commit()\<close>: the session's copy becomes the committed one.\<close>

definition db_session_commit :: "world \<Rightarrow> world" where
  "db_session_commit w = w\<lparr>calls := calls w @ [Commit], committed := session w\<rparr>"

text \<open>All comment rows of a copy of the database.\<close>

definition comment_rows :: "database \<Rightarrow> sql_comment list" where
  "comment_rows db = concat (map ev_comments (db_events db))"


section \<open>Event\<close>

text \<open>
  The handle over one document. Its \<^verbatim>\<open>datastore\<close> attribute is the analyzer's one
  connection, whose state is the \<^typ>\<open>world\<close>. No method but the constructor assigns an
  attribute, so a handle is a value.
\<close>

record event =
  sketch_id :: "int option"
  event_id :: pyval
  event_type :: pyval
  index_name :: pyval
  source :: pyval

text \<open>The handler of the constructor: \<^verbatim>\<open>except KeyError as e: raise KeyError(...)\<close>.\<close>

fun malformed :: "error \<Rightarrow> error" where
  "malformed (KeyError k) = KeyError (''Malformed event: '' @ k)"
| "malformed e = e"

definition Event_init :: "hit \<Rightarrow> int option \<Rightarrow> error + event" where
  "Event_init ev sid =
     (case dict_get ev ''_id'' PNone of
        Inl e \<Rightarrow> Inl (malformed e)
      | Inr i \<Rightarrow>
     (case dict_get ev ''_type'' PNone of
        Inl e \<Rightarrow> Inl (malformed e)
      | Inr t \<Rightarrow>
     (case dict_get ev ''_index'' PNone of
        Inl e \<Rightarrow> Inl (malformed e)
      | Inr n \<Rightarrow>
     (case dict_get ev ''_source'' PNone of
        Inl e \<Rightarrow> Inl (malformed e)
      | Inr s \<Rightarrow>
          Inr \<lparr>sketch_id = sid, event_id = i, event_type = t, index_name = n, source = s\<rparr>))))"

text \<open>\<^verbatim>\<open>Event._update\<close>.\<close>

definition Event_update :: "event \<Rightarrow> pyval \<Rightarrow> world \<Rightarrow> (error + unit) \<times> world" where
  "Event_update self ev w = import_event (index_name self) (event_type self) (event_id self) ev w"

definition add_attributes :: "event \<Rightarrow> pyval \<Rightarrow> world \<Rightarrow> (error + unit) \<times> world" where
  "add_attributes self attributes w = Event_update self attributes w"

text \<open>
  \<^verbatim>\<open>Event.add_label\<close>. The guard \<^verbatim>\<open>if not self.sketch_id\<close> holds for \<^verbatim>\<open>None\<close> and
  for the integer 0.
\<close>

definition add_label :: "backend \<Rightarrow> event \<Rightarrow> string \<Rightarrow> bool \<Rightarrow> world \<Rightarrow> (error + unit) \<times> world" where
  "add_label B self label toggle w =
     (case sketch_id self of
        None \<Rightarrow> (Inl (RuntimeError ''No sketch_id provided.''), w)
      | Some sid \<Rightarrow>
          if sid = 0 then (Inl (RuntimeError ''No sketch_id provided.''), w)
          else
            (case set_label B (index_name self) (event_id self) (event_type self) sid 0
                    label toggle False w of
               (Inl e, w1) \<Rightarrow> (Inl e, w1)
             | (Inr updated_event, w1) \<Rightarrow> Event_update self updated_event w1))"

text \<open>
  \<^verbatim>\<open>Event.add_tags\<close>. \<^verbatim>\<open>self.source.get\<close> needs a dictionary: on anything else the
  attribute lookup fails.
\<close>

definition add_tags :: "event \<Rightarrow> pyval \<Rightarrow> world \<Rightarrow> (error + unit) \<times> world" where
  "add_tags self tags w =
     (case source self of
        PDict d \<Rightarrow>
          (case dict_get d ''tag'' (PList []) of
             Inl e \<Rightarrow> (Inl e, w)
           | Inr existing_tags \<Rightarrow>
               (case set_union_list existing_tags tags of
                  Inl e \<Rightarrow> (Inl e, w)
                | Inr new_tags \<Rightarrow> Event_update self (PDict [(''tag'', PList new_tags)]) w))
      | other \<Rightarrow> (Inl AttributeError, w))"

definition add_star :: "backend \<Rightarrow> event \<Rightarrow> world \<Rightarrow> (error + unit) \<times> world" where
  "add_star B self w = add_label B self ''__ts_star'' False w"

text \<open>
  \<^verbatim>\<open>Event.add_comment\<close>: the relational writes and their commit come first, the label
  last. The method has no guard of its own.
\<close>

definition add_comment :: "backend \<Rightarrow> event \<Rightarrow> string \<Rightarrow> world \<Rightarrow> (error + unit) \<times> world" where
  "add_comment B self comment w =
     (let sketch = SQLSketch_get w (sketch_id self);
          searchindex = SearchIndex_first w (index_name self)
      in case SQLEvent_get_or_create sketch searchindex (event_id self) w of
           (db_event, w1) \<Rightarrow>
             (let c = \<lparr>comment_text = comment, comment_user = None\<rparr>;
                  w2 = comments_append db_event c w1;
                  w3 = db_session_add_event db_event w2;
                  w4 = db_session_commit w3
              in add_label B self ''__ts_comment'' False w4))"


text \<open>
  The relational half of \<^verbatim>\<open>add_comment\<close>: everything up to and including
  \<^verbatim>\<open>db_session.commit()\<close>, that is, all of the method but its last line.
\<close>

definition comment_committed :: "event \<Rightarrow> string \<Rightarrow> world \<Rightarrow> world" where
  "comment_committed self comment w =
     (case SQLEvent_get_or_create (SQLSketch_get w (sketch_id self))
             (SearchIndex_first w (index_name self)) (event_id self) w of
        (db_event, w1) \<Rightarrow>
          db_session_commit (db_session_add_event db_event
            (comments_append db_event \<lparr>comment_text = comment, comment_user = None\<rparr> w1)))"


section \<open>Sketch\<close>

record sketch =
  sql_sketch :: "int option"

definition Sketch_init :: "world \<Rightarrow> int option \<Rightarrow> sketch" where
  "Sketch_init w sid = \<lparr>sql_sketch = SQLSketch_get w sid\<rparr>"

text \<open>
  Modelled from the spec: \<^verbatim>\<open>View.validate_filter\<close> is not part of the module. The spec
  gives a filter validator invoked on \<^verbatim>\<open>query_filter\<close>, which normalises it; what it
  returns is the backend's.
\<close>

definition validate_filter :: "backend \<Rightarrow> view \<Rightarrow> pyval \<Rightarrow> pyval" where
  "validate_filter B v query_filter = validate_filter_result B v query_filter"

text \<open>
  \<^verbatim>\<open>Sketch.add_view\<close>. The gate is \<^verbatim>\<open>if not query_string or query_dsl\<close>, where
  \<^verbatim>\<open>not\<close> binds tighter than \<^verbatim>\<open>or\<close>.
\<close>

definition add_view ::
  "backend \<Rightarrow> sketch \<Rightarrow> pyval \<Rightarrow> pyval \<Rightarrow> pyval \<Rightarrow> pyval \<Rightarrow> world \<Rightarrow> (error + view) \<times> world" where
  "add_view B self name query_string query_dsl query_filter w =
     (let query_filter = (if \<not> truthy query_filter then PDict [] else query_filter)
      in if \<not> truthy query_string \<or> truthy query_dsl
         then (Inl (ValueError ''query_string and query_dsl is missing.''), w)
         else
           (let v = \<lparr>view_name = name, view_sketch = sql_sketch self, view_user = None,
                     view_query_string = query_string, view_query_filter = query_filter,
                     view_query_dsl = query_dsl, view_searchtemplate = None\<rparr>;
                v1 = v\<lparr>view_query_filter := validate_filter B v query_filter\<rparr>;
                w1 = db_session_add_view v1 w;
                w2 = db_session_commit w1
            in (Inr v1, w2)))"


section \<open>The flush decorator and the analyzer entry point\<close>

record analyzer =
  an_name :: string
  an_sketch_id :: "int option"
  an_index_name :: pyval

text \<open>
  \<^verbatim>\<open>_flush_datastore_decorator(func)\<close>: the wrapper calls \<^verbatim>\<open>func\<close>, then flushes, then
  returns what \<^verbatim>\<open>func\<close> returned. There is no \<^verbatim>\<open>try\<close>: an exception of \<^verbatim>\<open>func\<close>
  leaves the wrapper at once.
\<close>

definition flush_datastore_decorator ::
  "('self \<Rightarrow> world \<Rightarrow> (error + 'r) \<times> world) \<Rightarrow> 'self \<Rightarrow> world \<Rightarrow> (error + 'r) \<times> world" where
  "flush_datastore_decorator func self w =
     (case func self w of
        (Inl e, w1) \<Rightarrow> (Inl e, w1)
      | (Inr func_return, w1) \<Rightarrow>
          (case flush_queued_events w1 of
             (Inl e, w2) \<Rightarrow> (Inl e, w2)
           | (Inr u, w2) \<Rightarrow> (Inr func_return, w2)))"

text \<open>\<^verbatim>\<open>BaseAnalyzer.run\<close> of the abstract base; a concrete analyzer overrides it.\<close>

definition BaseAnalyzer_run :: "analyzer \<Rightarrow> world \<Rightarrow> (error + pyval) \<times> world" where
  "BaseAnalyzer_run self w = (Inl NotImplementedError, w)"

text \<open>
  \<^verbatim>\<open>BaseAnalyzer.run_wrapper\<close>, decorated. The method \<^verbatim>\<open>run\<close> is resolved on the
  concrete analyzer, so it is an argument here.
\<close>

definition run_wrapper ::
  "(analyzer \<Rightarrow> world \<Rightarrow> (error + 'r) \<times> world) \<Rightarrow> analyzer \<Rightarrow> world \<Rightarrow> (error + 'r) \<times> world" where
  "run_wrapper run =
     flush_datastore_decorator (\<lambda>self w. case run self w of (result, w1) \<Rightarrow> (result, w1))"

section \<open>The event stream\<close>

text \<open>
  \<^verbatim>\<open>BaseAnalyzer.event_stream\<close> contains \<^verbatim>\<open>yield\<close>, so calling it only creates a
  generator; the body runs when the generator is resumed. A generator is either created
  (holding the call's arguments), suspended at the \<^verbatim>\<open>yield\<close> (holding the hits still to
  come), or exhausted.
\<close>

datatype generator =
    Created analyzer pyval pyval pyval pyval
  | Suspended analyzer "hit list"
  | Exhausted

definition event_stream :: "analyzer \<Rightarrow> pyval \<Rightarrow> pyval \<Rightarrow> pyval \<Rightarrow> pyval \<Rightarrow> generator" where
  "event_stream self query_string query_filter return_fields indices =
     Created self query_string query_filter return_fields indices"

text \<open>The loop \<^verbatim>\<open>for index in indices: self.datastore.client.indices.refresh(index=index)\<close>.\<close>

fun refresh_all :: "pyval list \<Rightarrow> world \<Rightarrow> (error + unit) \<times> world" where
  "refresh_all [] w = (Inr (), w)"
| "refresh_all (index # rest) w =
     (case refresh index w of
        (Inl e, w1) \<Rightarrow> (Inl e, w1)
      | (Inr u, w1) \<Rightarrow> refresh_all rest w1)"

text \<open>One turn of the loop \<^verbatim>\<open>for event in event_generator: yield Event(...)\<close>.\<close>

fun yield_next :: "analyzer \<Rightarrow> hit list \<Rightarrow> world \<Rightarrow> (error + event option) \<times> generator \<times> world" where
  "yield_next self [] w = (Inr None, Exhausted, w)"
| "yield_next self (h # hs) w =
     (case Event_init h (an_sketch_id self) of
        Inl e \<Rightarrow> (Inl e, Exhausted, w)
      | Inr ev \<Rightarrow> (Inr (Some ev), Suspended self hs, w))"

text \<open>
  Resuming the generator (\<^verbatim>\<open>next\<close>): the result is the event yielded, or \<^verbatim>\<open>None\<close>
  when the generator is exhausted, or the exception that ended it.
\<close>

fun next_event :: "backend \<Rightarrow> generator \<Rightarrow> world \<Rightarrow> (error + event option) \<times> generator \<times> world" where
  "next_event B (Created self query_string query_filter return_fields indices) w =
     (let query_filter = (if \<not> truthy query_filter then PDict [] else query_filter);
          return_fields = (if \<not> truthy return_fields then PStr ''message'' else return_fields);
          indices = (if \<not> truthy indices then PList [an_index_name self] else indices)
      in case py_iter indices of
           Inl e \<Rightarrow> (Inl e, Exhausted, w)
         | Inr ixs \<Rightarrow>
             (case refresh_all ixs w of
                (Inl e, w1) \<Rightarrow> (Inl e, Exhausted, w1)
              | (Inr u, w1) \<Rightarrow>
                  (case search_stream B query_string query_filter indices return_fields w1 of
                     (Inl e, w2) \<Rightarrow> (Inl e, Exhausted, w2)
                   | (Inr hits, w2) \<Rightarrow> yield_next self hits w2)))"
| "next_event B (Suspended self hits) w = yield_next self hits w"
| "next_event B Exhausted w = (Inr None, Exhausted, w)"

text \<open>Resuming a generator \<open>n\<close> more times, keeping the last state and world.\<close>

fun resume :: "backend \<Rightarrow> nat \<Rightarrow> generator \<Rightarrow> world \<Rightarrow> generator \<times> world" where
  "resume B 0 g w = (g, w)"
| "resume B (Suc n) g w = (case next_event B g w of (r, g1, w1) \<Rightarrow> resume B n g1 w1)"

text \<open>How often a call occurs in a log.\<close>

definition count_calls :: "call \<Rightarrow> call list \<Rightarrow> nat" where
  "count_calls c cs = length (filter (\<lambda>x. x = c) cs)"


section \<open>Sample inputs\<close>

text \<open>A world with one sketch and one search index, an analyzer of that sketch, and a
  \<^verbatim>\<open>run\<close> that enqueues one update and reports.\<close>

definition w0 :: world where
  "w0 = \<lparr>calls = [], queue = [], flushed = [], sketches = [1], searchindices = [PStr ''idx''],
         session = \<lparr>db_events = [], db_views = []\<rparr>,
         committed = \<lparr>db_events = [], db_views = []\<rparr>\<rparr>"

definition a0 :: analyzer where
  "a0 = \<lparr>an_name = ''name'', an_sketch_id = Some 1, an_index_name = PStr ''idx''\<rparr>"

definition run0 :: "analyzer \<Rightarrow> world \<Rightarrow> (error + pyval) \<times> world" where
  "run0 self w =
     (case import_event (an_index_name self) (PStr ''doc'') (PStr ''7'') (PDict [(''seen'', PInt 1)]) w of
        (Inl e, w1) \<Rightarrow> (Inl e, w1)
      | (Inr u, w1) \<Rightarrow> (Inr (PStr ''done''), w1))"


text \<open>A handle of a document of that sketch with two tags, the same handle with no
  sketch bound, a backend whose \<^verbatim>\<open>set_label\<close> answers and whose validator returns the
  filter as it is, and a backend whose \<^verbatim>\<open>set_label\<close> raises.\<close>

definition e0 :: event where
  "e0 = \<lparr>sketch_id = Some 1, event_id = PStr ''7'', event_type = PStr ''doc'',
         index_name = PStr ''idx'',
         source = PDict [(''message'', PStr ''login''), (''tag'', PList [PStr ''a'', PStr ''b''])]\<rparr>"

definition e1 :: event where
  "e1 = e0\<lparr>sketch_id := None\<rparr>"

definition B0 :: backend where
  "B0 = \<lparr>set_label_result =
            (\<lambda>w index_name event_id event_type sketch_id user_id label toggle single_update.
               Inr (PDict [(''timesketch_label'', PList [PStr label])])),
          search_stream_result =
            (\<lambda>w query_string query_filter indices return_fields.
               Inr [[(''_id'', PStr ''7''), (''_type'', PStr ''doc''), (''_index'', PStr ''idx''),
                     (''_source'', PDict [(''message'', PStr ''login'')])],
                    [(''_id'', PStr ''8''), (''_type'', PStr ''doc''), (''_index'', PStr ''idx''),
                     (''_source'', PDict [(''message'', PStr ''logout'')])]]),
          validate_filter_result = (\<lambda>v query_filter. query_filter)\<rparr>"

definition B1 :: backend where
  "B1 = B0\<lparr>set_label_result :=
            (\<lambda>w index_name event_id event_type sketch_id user_id label toggle single_update.
               Inl (BackendError ''document missing''))\<rparr>"


text \<open>A backend whose filter validator returns the filter serialised, with default
  attributes filled in.\<close>

definition B2 :: backend where
  "B2 = B0\<lparr>validate_filter_result :=
            (\<lambda>v query_filter. PStr ''{\"from\": 0, \"size\": 40, \"order\": \"asc\"}'')\<rparr>"


section \<open>The flush on completion\<close>

text \<open>
  C1. If \<^verbatim>\<open>run()\<close> returns normally with result \<open>r\<close>, leaving the world \<open>w1\<close>, then
  \<^verbatim>\<open>run_wrapper()\<close> returns \<open>r\<close> unchanged, its call log is that of \<open>run\<close> followed by
  one \<^verbatim>\<open>flush_queued_events\<close> (so the flush comes after \<open>run\<close> has returned, and the
  wrapper adds exactly one), and the pending updates have been applied.
\<close>

theorem run_wrapper_returns_flushes_once:
  assumes "run self w = (Inr r, w1)"
  shows "run_wrapper run self w =
           (Inr r, w1\<lparr>calls := calls w1 @ [FlushQueuedEvents],
                       flushed := flushed w1 @ queue w1, queue := []\<rparr>)
         \<and> calls (snd (run_wrapper run self w)) = calls w1 @ [FlushQueuedEvents]
         \<and> count_calls FlushQueuedEvents (calls (snd (run_wrapper run self w)))
             = Suc (count_calls FlushQueuedEvents (calls w1))"
  using assms
  by (simp add: run_wrapper_def flush_datastore_decorator_def flush_queued_events_def count_calls_def)

theorem run_wrapper_returns_flushes_once_witness:
  "run0 a0 w0 =
     (Inr (PStr ''done''),
      w0\<lparr>calls := [ImportEvent (PStr ''idx'') (PStr ''doc'') (PStr ''7'') (PDict [(''seen'', PInt 1)])],
         queue := [(PStr ''idx'', PStr ''doc'', PStr ''7'', PDict [(''seen'', PInt 1)])]\<rparr>)
   \<and> fst (run_wrapper run0 a0 w0) = Inr (PStr ''done'')
   \<and> calls (snd (run_wrapper run0 a0 w0)) =
       [ImportEvent (PStr ''idx'') (PStr ''doc'') (PStr ''7'') (PDict [(''seen'', PInt 1)]),
        FlushQueuedEvents]
   \<and> count_calls FlushQueuedEvents (calls (snd (run_wrapper run0 a0 w0))) = 1"
proof -
  have r: "run0 a0 w0 =
     (Inr (PStr ''done''),
      w0\<lparr>calls := [ImportEvent (PStr ''idx'') (PStr ''doc'') (PStr ''7'') (PDict [(''seen'', PInt 1)])],
         queue := [(PStr ''idx'', PStr ''doc'', PStr ''7'', PDict [(''seen'', PInt 1)])]\<rparr>)"
    by (simp add: run0_def import_event_def a0_def w0_def)
  show ?thesis
    using run_wrapper_returns_flushes_once [where run = run0 and self = a0 and w = w0, OF r] r
    by (simp add: count_calls_def w0_def)
qed

text \<open>
  C2. If \<^verbatim>\<open>run()\<close> raises \<open>e\<close>, leaving the world \<open>w1\<close>, then \<^verbatim>\<open>run_wrapper()\<close> raises
  the same \<open>e\<close> and leaves exactly \<open>w1\<close>: the wrapper makes no call of its own, so the log
  holds no flush beyond those \<open>run\<close> made itself, and the queue is as \<open>run\<close> left it.
\<close>

theorem run_wrapper_raises_no_flush:
  assumes "run self w = (Inl e, w1)"
  shows "run_wrapper run self w = (Inl e, w1)
         \<and> count_calls FlushQueuedEvents (calls (snd (run_wrapper run self w)))
             = count_calls FlushQueuedEvents (calls w1)"
  using assms
  by (simp add: run_wrapper_def flush_datastore_decorator_def)

theorem run_wrapper_raises_no_flush_witness:
  "BaseAnalyzer_run a0 w0 = (Inl NotImplementedError, w0)
   \<and> run_wrapper BaseAnalyzer_run a0 w0 = (Inl NotImplementedError, w0)
   \<and> count_calls FlushQueuedEvents (calls (snd (run_wrapper BaseAnalyzer_run a0 w0))) = 0"
proof -
  have r: "BaseAnalyzer_run a0 w0 = (Inl NotImplementedError, w0)"
    by (simp add: BaseAnalyzer_run_def)
  show ?thesis
    using run_wrapper_raises_no_flush [where run = BaseAnalyzer_run and self = a0 and w = w0, OF r] r
    by (simp add: count_calls_def w0_def)
qed


section \<open>Constructing an event\<close>

text \<open>The constructor returns a handle for every hit: a key that is missing reads as
  \<^verbatim>\<open>None\<close>.\<close>

lemma Event_init_returns:
  "Event_init h sid =
     Inr \<lparr>sketch_id = sid,
          event_id = (case map_of h ''_id'' of None \<Rightarrow> PNone | Some v \<Rightarrow> v),
          event_type = (case map_of h ''_type'' of None \<Rightarrow> PNone | Some v \<Rightarrow> v),
          index_name = (case map_of h ''_index'' of None \<Rightarrow> PNone | Some v \<Rightarrow> v),
          source = (case map_of h ''_source'' of None \<Rightarrow> PNone | Some v \<Rightarrow> v)\<rparr>"
  by (simp add: Event_init_def dict_get_def split: option.splits)

text \<open>
  C3. The claim is that a hit lacking \<^verbatim>\<open>_id\<close>, \<^verbatim>\<open>_type\<close>, \<^verbatim>\<open>_index\<close> or \<^verbatim>\<open>_source\<close>
  makes the constructor raise an error naming the key. The constructor reads the hit
  with \<^verbatim>\<open>event.get\<close>, which raises no \<^verbatim>\<open>KeyError\<close>, so its handler is never entered:
  on the hit below, which has no \<^verbatim>\<open>_source\<close>, it returns a handle whose \<^verbatim>\<open>source\<close> is
  \<^verbatim>\<open>None\<close>, and on no hit at all does it raise.
\<close>

theorem Event_init_missing_source_no_error:
  "Event_init [(''_id'', PStr ''7''), (''_type'', PStr ''doc''), (''_index'', PStr ''idx'')] None =
     Inr \<lparr>sketch_id = None, event_id = PStr ''7'', event_type = PStr ''doc'',
          index_name = PStr ''idx'', source = PNone\<rparr>
   \<and> (\<forall>h sid e. Event_init h sid \<noteq> Inl e)"
  by (simp add: Event_init_returns)


section \<open>Labels\<close>

text \<open>
  C10. On a handle whose \<^verbatim>\<open>sketch_id\<close> is the integer 0, \<^verbatim>\<open>add_label\<close> raises the
  error \<^verbatim>\<open>No sketch_id provided.\<close> and changes nothing, exactly as it does on a handle
  whose \<^verbatim>\<open>sketch_id\<close> is \<^verbatim>\<open>None\<close>; so does \<^verbatim>\<open>add_star\<close>.
\<close>

theorem add_label_zero_sketch_id:
  "add_label B (self\<lparr>sketch_id := Some 0\<rparr>) label toggle w =
     (Inl (RuntimeError ''No sketch_id provided.''), w)
   \<and> add_label B (self\<lparr>sketch_id := Some 0\<rparr>) label toggle w =
       add_label B (self\<lparr>sketch_id := None\<rparr>) label toggle w
   \<and> add_star B (self\<lparr>sketch_id := Some 0\<rparr>) w =
       (Inl (RuntimeError ''No sketch_id provided.''), w)"
  by (simp add: add_label_def add_star_def)

section \<open>Views\<close>

text \<open>
  C5. \<^verbatim>\<open>add_view\<close> raises its validation error exactly when it is not the case that
  a query string is supplied and no query DSL is supplied, where a value is supplied when
  the gate finds it truthy (\<^verbatim>\<open>None\<close> and the empty string are not); it raises no other
  error. When it succeeds with a query string, no DSL and no filter, the view it returns
  is the one row added to the session, is committed, and has as filter what
  \<^verbatim>\<open>View.validate_filter\<close> returns for the empty mapping: the method overwrites the
  filter with the validator's result before it persists the view.
\<close>

theorem add_view_stores_validated_filter:
  "(fst (add_view B self name query_string query_dsl query_filter w) =
      Inl (ValueError ''query_string and query_dsl is missing.''))
     = (\<not> (truthy query_string \<and> \<not> truthy query_dsl))
   \<and> (\<forall>e. fst (add_view B self name query_string query_dsl query_filter w) = Inl e
         \<longrightarrow> e = ValueError ''query_string and query_dsl is missing.'')
   \<and> (truthy query_string \<and> \<not> truthy query_dsl \<and> \<not> truthy query_filter
       \<longrightarrow> (\<exists>v. fst (add_view B self name query_string query_dsl query_filter w) = Inr v
              \<and> v = \<lparr>view_name = name, view_sketch = sql_sketch self, view_user = None,
                      view_query_string = query_string,
                      view_query_filter =
                        validate_filter B
                          \<lparr>view_name = name, view_sketch = sql_sketch self, view_user = None,
                            view_query_string = query_string, view_query_filter = PDict [],
                            view_query_dsl = query_dsl, view_searchtemplate = None\<rparr>
                          (PDict []),
                      view_query_dsl = query_dsl, view_searchtemplate = None\<rparr>
              \<and> db_views (session (snd (add_view B self name query_string query_dsl query_filter w)))
                  = db_views (session w) @ [v]
              \<and> committed (snd (add_view B self name query_string query_dsl query_filter w))
                  = session (snd (add_view B self name query_string query_dsl query_filter w))
              \<and> calls (snd (add_view B self name query_string query_dsl query_filter w))
                  = calls w @ [Commit]))"
  by (simp add: add_view_def Let_def db_session_add_view_def db_session_commit_def)

theorem add_view_stores_validated_filter_witness:
  "(\<exists>v. fst (add_view B0 (Sketch_init w0 (Some 1)) (PStr ''v'') (PStr ''foo'') PNone PNone w0) = Inr v
        \<and> view_query_filter v = PDict []
        \<and> db_views (committed (snd (add_view B0 (Sketch_init w0 (Some 1)) (PStr ''v'') (PStr ''foo'')
              PNone PNone w0))) = [v])
   \<and> (\<exists>v. fst (add_view B2 (Sketch_init w0 (Some 1)) (PStr ''v'') (PStr ''foo'') PNone PNone w0) = Inr v
        \<and> view_query_filter v = PStr ''{\"from\": 0, \"size\": 40, \"order\": \"asc\"}''
        \<and> db_views (committed (snd (add_view B2 (Sketch_init w0 (Some 1)) (PStr ''v'') (PStr ''foo'')
              PNone PNone w0))) = [v])
   \<and> fst (add_view B0 (Sketch_init w0 (Some 1)) (PStr ''v'') PNone (PStr ''bar'') PNone w0)
       = Inl (ValueError ''query_string and query_dsl is missing.'')
   \<and> fst (add_view B0 (Sketch_init w0 (Some 1)) (PStr ''v'') (PStr ''foo'') (PStr ''bar'') PNone w0)
       = Inl (ValueError ''query_string and query_dsl is missing.'')
   \<and> fst (add_view B0 (Sketch_init w0 (Some 1)) (PStr ''v'') PNone PNone PNone w0)
       = Inl (ValueError ''query_string and query_dsl is missing.'')"
proof -
  let ?S = "Sketch_init w0 (Some 1)"
  have t: "truthy (PStr ''foo'') \<and> \<not> truthy PNone \<and> \<not> truthy PNone"
    by simp
  have d: "db_views (session w0) = []"
    by (simp add: w0_def)
  have v0: "validate_filter B0 x (PDict []) = PDict []" for x
    by (simp add: validate_filter_def B0_def)
  have v2: "validate_filter B2 x (PDict []) = PStr ''{\"from\": 0, \"size\": 40, \"order\": \"asc\"}''" for x
    by (simp add: validate_filter_def B2_def)
  from add_view_stores_validated_filter
         [of B0 ?S "PStr ''v''" "PStr ''foo''" PNone PNone w0] t
  obtain v where v: "fst (add_view B0 ?S (PStr ''v'') (PStr ''foo'') PNone PNone w0) = Inr v"
      "view_query_filter v = validate_filter B0
          \<lparr>view_name = PStr ''v'', view_sketch = sql_sketch ?S, view_user = None,
            view_query_string = PStr ''foo'', view_query_filter = PDict [],
            view_query_dsl = PNone, view_searchtemplate = None\<rparr> (PDict [])"
      "db_views (session (snd (add_view B0 ?S (PStr ''v'') (PStr ''foo'') PNone PNone w0)))
         = db_views (session w0) @ [v]"
      "committed (snd (add_view B0 ?S (PStr ''v'') (PStr ''foo'') PNone PNone w0))
         = session (snd (add_view B0 ?S (PStr ''v'') (PStr ''foo'') PNone PNone w0))"
    by auto
  have a: "\<exists>v. fst (add_view B0 ?S (PStr ''v'') (PStr ''foo'') PNone PNone w0) = Inr v
        \<and> view_query_filter v = PDict []
        \<and> db_views (committed (snd (add_view B0 ?S (PStr ''v'') (PStr ''foo'') PNone PNone w0))) = [v]"
    using v d by (simp add: v0)
  from add_view_stores_validated_filter
         [of B2 ?S "PStr ''v''" "PStr ''foo''" PNone PNone w0] t
  obtain u where u: "fst (add_view B2 ?S (PStr ''v'') (PStr ''foo'') PNone PNone w0) = Inr u"
      "view_query_filter u = validate_filter B2
          \<lparr>view_name = PStr ''v'', view_sketch = sql_sketch ?S, view_user = None,
            view_query_string = PStr ''foo'', view_query_filter = PDict [],
            view_query_dsl = PNone, view_searchtemplate = None\<rparr> (PDict [])"
      "db_views (session (snd (add_view B2 ?S (PStr ''v'') (PStr ''foo'') PNone PNone w0)))
         = db_views (session w0) @ [u]"
      "committed (snd (add_view B2 ?S (PStr ''v'') (PStr ''foo'') PNone PNone w0))
         = session (snd (add_view B2 ?S (PStr ''v'') (PStr ''foo'') PNone PNone w0))"
    by auto
  have a2: "\<exists>v. fst (add_view B2 ?S (PStr ''v'') (PStr ''foo'') PNone PNone w0) = Inr v
        \<and> view_query_filter v = PStr ''{\"from\": 0, \"size\": 40, \"order\": \"asc\"}''
        \<and> db_views (committed (snd (add_view B2 ?S (PStr ''v'') (PStr ''foo'') PNone PNone w0))) = [v]"
    using u d by (simp add: v2)
  have b: "fst (add_view B0 ?S (PStr ''v'') PNone (PStr ''bar'') PNone w0)
       = Inl (ValueError ''query_string and query_dsl is missing.'')"
    using add_view_stores_validated_filter
            [of B0 ?S "PStr ''v''" PNone "PStr ''bar''" PNone w0, THEN conjunct1]
    by simp
  have c: "fst (add_view B0 ?S (PStr ''v'') (PStr ''foo'') (PStr ''bar'') PNone w0)
       = Inl (ValueError ''query_string and query_dsl is missing.'')"
    using add_view_stores_validated_filter
            [of B0 ?S "PStr ''v''" "PStr ''foo''" "PStr ''bar''" PNone w0, THEN conjunct1]
    by simp
  have e: "fst (add_view B0 ?S (PStr ''v'') PNone PNone PNone w0)
       = Inl (ValueError ''query_string and query_dsl is missing.'')"
    using add_view_stores_validated_filter
            [of B0 ?S "PStr ''v''" PNone PNone PNone w0, THEN conjunct1]
    by simp
  from a a2 b c e show ?thesis
    by (intro conjI)
qed

text \<open>
  As first stated, C5 has the returned view's filter be the empty mapping. That holds
  only for a validator that leaves the empty mapping as it is. With the validator of
  \<open>B2\<close>, which returns the filter serialised with its default attributes filled in, the
  call \<^verbatim>\<open>add_view('v', query_string='foo')\<close> succeeds and returns a view whose filter
  is that string.
\<close>

theorem add_view_filter_not_empty_counterexample:
  "fst (add_view B2 (Sketch_init w0 (Some 1)) (PStr ''v'') (PStr ''foo'') PNone PNone w0) =
     Inr \<lparr>view_name = PStr ''v'', view_sketch = Some 1, view_user = None,
          view_query_string = PStr ''foo'',
          view_query_filter = PStr ''{\"from\": 0, \"size\": 40, \"order\": \"asc\"}'',
          view_query_dsl = PNone, view_searchtemplate = None\<rparr>
   \<and> \<not> (\<exists>v. fst (add_view B2 (Sketch_init w0 (Some 1)) (PStr ''v'') (PStr ''foo'') PNone PNone w0) = Inr v
            \<and> view_query_filter v = PDict [])"
  by (simp add: add_view_def Let_def validate_filter_def B2_def B0_def Sketch_init_def
      SQLSketch_get_def w0_def db_session_add_view_def db_session_commit_def)


section \<open>Comments\<close>

lemma find_event_Some:
  "find_event sk si doc es = Some i \<Longrightarrow>
     i < length es \<and> ev_sketch (es ! i) = sk \<and> ev_searchindex (es ! i) = si
       \<and> ev_document_id (es ! i) = doc"
proof (induction es arbitrary: i)
  case Nil
  then show ?case by simp
next
  case (Cons e es)
  show ?case
  proof (cases "ev_sketch e = sk \<and> ev_searchindex e = si \<and> ev_document_id e = doc")
    case True
    with Cons.prems show ?thesis by auto
  next
    case False
    with Cons.prems obtain j where j: "find_event sk si doc es = Some j" and i: "i = Suc j"
      by auto
    from Cons.IH [OF j] i show ?thesis by simp
  qed
qed

lemma find_event_append_new:
  "find_event sk si doc es = None \<Longrightarrow>
     find_event sk si doc
       (es @ [\<lparr>ev_sketch = sk, ev_searchindex = si, ev_document_id = doc, ev_comments = cs\<rparr>])
     = Some (length es)"
  by (induction es) (auto split: if_splits)

lemma find_event_comments_update:
  "find_event sk si doc (es[i := (es ! i)\<lparr>ev_comments := cs\<rparr>]) = find_event sk si doc es"
proof (induction es arbitrary: i)
  case Nil
  then show ?case by simp
next
  case (Cons e es)
  then show ?case by (cases i) simp_all
qed

lemma comment_rows_update:
  "i < length es \<Longrightarrow>
     mset (concat (map ev_comments (es[i := (es ! i)\<lparr>ev_comments := ev_comments (es ! i) @ [c]\<rparr>])))
     = add_mset c (mset (concat (map ev_comments es)))"
proof (induction es arbitrary: i)
  case Nil
  then show ?case by simp
next
  case (Cons e es)
  then show ?case by (cases i) simp_all
qed

lemma add_comment_split:
  "add_comment B self comment w =
     add_label B self ''__ts_comment'' False (comment_committed self comment w)"
  by (simp add: add_comment_def comment_committed_def Let_def split: prod.splits)

lemma comment_committed_calls:
  "calls (comment_committed self comment w) = calls w @ [Commit]"
  by (simp add: comment_committed_def SQLEvent_get_or_create_def comments_append_def
      db_session_add_event_def db_session_commit_def split: option.splits)

lemma comment_committed_commits:
  "committed (comment_committed self comment w) = session (comment_committed self comment w)"
  by (simp add: comment_committed_def db_session_commit_def split: prod.splits)

lemma comment_committed_rows:
  "mset (comment_rows (session (comment_committed self comment w)))
     = add_mset \<lparr>comment_text = comment, comment_user = None\<rparr> (mset (comment_rows (session w)))"
proof (cases "find_event (SQLSketch_get w (sketch_id self))
                (SearchIndex_first w (index_name self)) (event_id self) (db_events (session w))")
  case None
  then show ?thesis
    by (simp add: comment_committed_def SQLEvent_get_or_create_def comments_append_def
        db_session_add_event_def db_session_commit_def comment_rows_def nth_append)
next
  case (Some i)
  from find_event_Some [OF Some] have "i < length (db_events (session w))"
    by simp
  with Some show ?thesis
    by (simp add: comment_committed_def SQLEvent_get_or_create_def comments_append_def
        db_session_add_event_def db_session_commit_def comment_rows_def comment_rows_update)
qed

lemma comment_committed_event:
  "\<exists>i. find_event (SQLSketch_get w (sketch_id self)) (SearchIndex_first w (index_name self))
          (event_id self) (db_events (session (comment_committed self comment w))) = Some i
       \<and> ev_comments (db_events (session (comment_committed self comment w)) ! i)
           = (case find_event (SQLSketch_get w (sketch_id self))
                     (SearchIndex_first w (index_name self)) (event_id self)
                     (db_events (session w)) of
                None \<Rightarrow> []
              | Some j \<Rightarrow> ev_comments (db_events (session w) ! j))
             @ [\<lparr>comment_text = comment, comment_user = None\<rparr>]"
proof (cases "find_event (SQLSketch_get w (sketch_id self))
                (SearchIndex_first w (index_name self)) (event_id self) (db_events (session w))")
  case None
  then show ?thesis
    by (simp add: comment_committed_def SQLEvent_get_or_create_def comments_append_def
        db_session_add_event_def db_session_commit_def find_event_append_new nth_append)
next
  case (Some i)
  from find_event_Some [OF Some] have "i < length (db_events (session w))"
    by simp
  with Some show ?thesis
    by (simp add: comment_committed_def SQLEvent_get_or_create_def comments_append_def
        db_session_add_event_def db_session_commit_def find_event_comments_update)
qed

lemma add_label_relational:
  "session (snd (add_label B self label toggle w)) = session w
   \<and> committed (snd (add_label B self label toggle w)) = committed w"
  by (simp add: add_label_def set_label_def Event_update_def import_event_def
      split: option.splits sum.splits)

lemma comment_committed_queue:
  "queue (comment_committed self comment w) = queue w"
  by (simp add: comment_committed_def SQLEvent_get_or_create_def comments_append_def
      db_session_add_event_def db_session_commit_def split: option.splits)

text \<open>What \<^verbatim>\<open>add_label\<close> does on a usable sketch id, by the answer of \<^verbatim>\<open>set_label\<close>.\<close>

lemma add_label_outcome:
  assumes "sketch_id self = Some sid" and "sid \<noteq> 0"
  shows "add_label B self label toggle w =
     (case set_label_result B w (index_name self) (event_id self) (event_type self) sid 0
             label toggle False of
        Inl e \<Rightarrow>
          (Inl e,
           w\<lparr>calls := calls w @
                [SetLabel (index_name self) (event_id self) (event_type self) sid 0
                   label toggle False]\<rparr>)
      | Inr updated \<Rightarrow>
          (Inr (),
           w\<lparr>calls := calls w @
                [SetLabel (index_name self) (event_id self) (event_type self) sid 0
                   label toggle False,
                 ImportEvent (index_name self) (event_type self) (event_id self) updated],
              queue := queue w @
                [(index_name self, event_type self, event_id self, updated)]\<rparr>))"
  using assms
  by (simp add: add_label_def set_label_def Event_update_def import_event_def split: sum.splits)

text \<open>
  C7. On a handle with a sketch id bound, \<^verbatim>\<open>add_comment(c)\<close> leaves the committed copy
  of the relational store equal to the session's, with exactly one comment row more than
  the session had, namely \<open>c\<close> with no author; the row hangs on the relational Event of
  (sketch, search index, document id), which exists afterwards and whose comments are its
  former ones (none if it had to be created) followed by \<open>c\<close>. The label comes after the
  commit. When \<^verbatim>\<open>set_label\<close> answers with a mapping, the method returns normally, its
  calls are the commit, then the \<^verbatim>\<open>set_label\<close> of \<^verbatim>\<open>__ts_comment\<close> (user 0, no
  toggle), then the \<^verbatim>\<open>import_event\<close> of that mapping for the handle's document, and the
  mapping is enqueued. When \<^verbatim>\<open>set_label\<close> raises, the method raises the same error
  after the commit and the \<^verbatim>\<open>set_label\<close> call, and nothing is enqueued. A sketch id of
  0 makes the label step fail before it reaches the datastore, after the commit. In each
  case the committed comment row is in place: nothing rolls it back.
\<close>

theorem add_comment_commits_then_asserts_label:
  assumes "sketch_id self = Some sid"
  shows "committed (snd (add_comment B self comment w)) = session (snd (add_comment B self comment w))
    \<and> mset (comment_rows (committed (snd (add_comment B self comment w))))
        = add_mset \<lparr>comment_text = comment, comment_user = None\<rparr> (mset (comment_rows (session w)))
    \<and> (\<exists>i. find_event (SQLSketch_get w (sketch_id self)) (SearchIndex_first w (index_name self))
               (event_id self) (db_events (committed (snd (add_comment B self comment w)))) = Some i
          \<and> ev_comments (db_events (committed (snd (add_comment B self comment w))) ! i)
              = (case find_event (SQLSketch_get w (sketch_id self))
                        (SearchIndex_first w (index_name self)) (event_id self)
                        (db_events (session w)) of
                   None \<Rightarrow> []
                 | Some j \<Rightarrow> ev_comments (db_events (session w) ! j))
                @ [\<lparr>comment_text = comment, comment_user = None\<rparr>])
    \<and> (sid \<noteq> 0 \<longrightarrow>
          (case set_label_result B (comment_committed self comment w)
                  (index_name self) (event_id self) (event_type self) sid 0
                  ''__ts_comment'' False False of
             Inr updated \<Rightarrow>
               fst (add_comment B self comment w) = Inr ()
               \<and> calls (snd (add_comment B self comment w)) =
                   calls w @
                     [Commit,
                      SetLabel (index_name self) (event_id self) (event_type self) sid 0
                        ''__ts_comment'' False False,
                      ImportEvent (index_name self) (event_type self) (event_id self) updated]
               \<and> queue (snd (add_comment B self comment w)) =
                   queue w @ [(index_name self, event_type self, event_id self, updated)]
           | Inl e \<Rightarrow>
               fst (add_comment B self comment w) = Inl e
               \<and> calls (snd (add_comment B self comment w)) =
                   calls w @
                     [Commit,
                      SetLabel (index_name self) (event_id self) (event_type self) sid 0
                        ''__ts_comment'' False False]
               \<and> queue (snd (add_comment B self comment w)) = queue w))
    \<and> (sid = 0 \<longrightarrow>
          fst (add_comment B self comment w) = Inl (RuntimeError ''No sketch_id provided.'')
          \<and> calls (snd (add_comment B self comment w)) = calls w @ [Commit]
          \<and> queue (snd (add_comment B self comment w)) = queue w)"
proof -
  let ?w4 = "comment_committed self comment w"
  let ?w5 = "snd (add_comment B self comment w)"
  have s: "session ?w5 = session ?w4" and c: "committed ?w5 = committed ?w4"
    by (simp_all add: add_comment_split add_label_relational)
  have p1: "committed ?w5 = session ?w5"
    by (simp add: s c comment_committed_commits)
  have p2: "mset (comment_rows (committed ?w5))
        = add_mset \<lparr>comment_text = comment, comment_user = None\<rparr> (mset (comment_rows (session w)))"
    by (simp add: c comment_committed_commits comment_committed_rows)
  have p3: "\<exists>i. find_event (SQLSketch_get w (sketch_id self)) (SearchIndex_first w (index_name self))
               (event_id self) (db_events (committed ?w5)) = Some i
          \<and> ev_comments (db_events (committed ?w5) ! i)
              = (case find_event (SQLSketch_get w (sketch_id self))
                        (SearchIndex_first w (index_name self)) (event_id self)
                        (db_events (session w)) of
                   None \<Rightarrow> []
                 | Some j \<Rightarrow> ev_comments (db_events (session w) ! j))
                @ [\<lparr>comment_text = comment, comment_user = None\<rparr>]"
    unfolding c comment_committed_commits by (rule comment_committed_event)
  have p4: "case set_label_result B ?w4
                  (index_name self) (event_id self) (event_type self) sid 0
                  ''__ts_comment'' False False of
             Inr updated \<Rightarrow>
               fst (add_comment B self comment w) = Inr ()
               \<and> calls ?w5 =
                   calls w @
                     [Commit,
                      SetLabel (index_name self) (event_id self) (event_type self) sid 0
                        ''__ts_comment'' False False,
                      ImportEvent (index_name self) (event_type self) (event_id self) updated]
               \<and> queue ?w5 =
                   queue w @ [(index_name self, event_type self, event_id self, updated)]
           | Inl e \<Rightarrow>
               fst (add_comment B self comment w) = Inl e
               \<and> calls ?w5 =
                   calls w @
                     [Commit,
                      SetLabel (index_name self) (event_id self) (event_type self) sid 0
                        ''__ts_comment'' False False]
               \<and> queue ?w5 = queue w" if "sid \<noteq> 0"
    unfolding add_comment_split add_label_outcome [OF assms that]
    by (simp add: comment_committed_calls comment_committed_queue split: sum.splits)
  have p5: "fst (add_comment B self comment w) = Inl (RuntimeError ''No sketch_id provided.'')
          \<and> calls ?w5 = calls w @ [Commit] \<and> queue ?w5 = queue w" if "sid = 0"
    using assms that
    by (simp add: add_comment_split add_label_def comment_committed_calls comment_committed_queue)
  from p1 p2 p3 p4 p5 show ?thesis
    by blast
qed

theorem add_comment_commits_then_asserts_label_witness:
  "sketch_id e0 = Some 1
   \<and> comment_rows (committed w0) = []
   \<and> fst (add_comment B0 e0 ''note'' w0) = Inr ()
   \<and> mset (comment_rows (committed (snd (add_comment B0 e0 ''note'' w0))))
       = {#\<lparr>comment_text = ''note'', comment_user = None\<rparr>#}
   \<and> calls (snd (add_comment B0 e0 ''note'' w0)) =
       [Commit,
        SetLabel (PStr ''idx'') (PStr ''7'') (PStr ''doc'') 1 0 ''__ts_comment'' False False,
        ImportEvent (PStr ''idx'') (PStr ''doc'') (PStr ''7'')
          (PDict [(''timesketch_label'', PList [PStr ''__ts_comment''])])]
   \<and> queue (snd (add_comment B0 e0 ''note'' w0)) =
       [(PStr ''idx'', PStr ''doc'', PStr ''7'',
         PDict [(''timesketch_label'', PList [PStr ''__ts_comment''])])]
   \<and> fst (add_comment B1 e0 ''note'' w0) = Inl (BackendError ''document missing'')
   \<and> mset (comment_rows (committed (snd (add_comment B1 e0 ''note'' w0))))
       = {#\<lparr>comment_text = ''note'', comment_user = None\<rparr>#}
   \<and> calls (snd (add_comment B1 e0 ''note'' w0)) =
       [Commit,
        SetLabel (PStr ''idx'') (PStr ''7'') (PStr ''doc'') 1 0 ''__ts_comment'' False False]
   \<and> queue (snd (add_comment B1 e0 ''note'' w0)) = []"
proof -
  have s: "sketch_id e0 = Some 1"
    by (simp add: e0_def)
  have r: "comment_rows (session w0) = []" "comment_rows (committed w0) = []" "calls w0 = []"
      "queue w0 = []"
    by (simp_all add: w0_def comment_rows_def)
  have i: "index_name e0 = PStr ''idx''" "event_type e0 = PStr ''doc''" "event_id e0 = PStr ''7''"
    by (simp_all add: e0_def)
  have l0: "set_label_result B0 x (PStr ''idx'') (PStr ''7'') (PStr ''doc'') 1 0
              ''__ts_comment'' False False
            = Inr (PDict [(''timesketch_label'', PList [PStr ''__ts_comment''])])" for x
    by (simp add: B0_def)
  have l1: "set_label_result B1 x (PStr ''idx'') (PStr ''7'') (PStr ''doc'') 1 0
              ''__ts_comment'' False False
            = Inl (BackendError ''document missing'')" for x
    by (simp add: B1_def)
  note t0 = add_comment_commits_then_asserts_label [OF s, of B0 "''note''" w0]
  note t1 = add_comment_commits_then_asserts_label [OF s, of B1 "''note''" w0]
  have a: "mset (comment_rows (committed (snd (add_comment B0 e0 ''note'' w0))))
         = {#\<lparr>comment_text = ''note'', comment_user = None\<rparr>#}"
    using t0 [THEN conjunct2, THEN conjunct1] unfolding r by simp
  have a': "fst (add_comment B0 e0 ''note'' w0) = Inr ()
     \<and> calls (snd (add_comment B0 e0 ''note'' w0)) =
       [Commit,
        SetLabel (PStr ''idx'') (PStr ''7'') (PStr ''doc'') 1 0 ''__ts_comment'' False False,
        ImportEvent (PStr ''idx'') (PStr ''doc'') (PStr ''7'')
          (PDict [(''timesketch_label'', PList [PStr ''__ts_comment''])])]
     \<and> queue (snd (add_comment B0 e0 ''note'' w0)) =
       [(PStr ''idx'', PStr ''doc'', PStr ''7'',
         PDict [(''timesketch_label'', PList [PStr ''__ts_comment''])])]"
    using t0 [THEN conjunct2, THEN conjunct2, THEN conjunct2, THEN conjunct1]
    unfolding r i l0 by simp
  have b: "mset (comment_rows (committed (snd (add_comment B1 e0 ''note'' w0))))
         = {#\<lparr>comment_text = ''note'', comment_user = None\<rparr>#}"
    using t1 [THEN conjunct2, THEN conjunct1] unfolding r by simp
  have b': "fst (add_comment B1 e0 ''note'' w0) = Inl (BackendError ''document missing'')
     \<and> calls (snd (add_comment B1 e0 ''note'' w0)) =
       [Commit,
        SetLabel (PStr ''idx'') (PStr ''7'') (PStr ''doc'') 1 0 ''__ts_comment'' False False]
     \<and> queue (snd (add_comment B1 e0 ''note'' w0)) = []"
    using t1 [THEN conjunct2, THEN conjunct2, THEN conjunct2, THEN conjunct1]
    unfolding r i l1 by simp
  from s r(2) a a' b b' show ?thesis
    by (intro conjI) simp_all
qed

text \<open>
  C6. The claim is that without a sketch id both \<^verbatim>\<open>add_label\<close> and \<^verbatim>\<open>add_comment\<close>
  raise before anything is enqueued or persisted. \<^verbatim>\<open>add_label\<close> does: it returns the
  error and the world as it was. \<^verbatim>\<open>add_comment\<close> has no guard of its own and meets the
  one of \<^verbatim>\<open>add_label\<close> only in its last line: on the handle \<open>e1\<close>, which has no sketch
  id, it raises the same error, but by then the comment row has been committed, on a
  relational Event that belongs to no sketch.
\<close>

theorem add_comment_without_sketch_id_commits:
  "sketch_id e1 = None
   \<and> add_label B0 e1 ''__ts_star'' False w0 = (Inl (RuntimeError ''No sketch_id provided.''), w0)
   \<and> fst (add_comment B0 e1 ''note'' w0) = Inl (RuntimeError ''No sketch_id provided.'')
   \<and> comment_rows (committed w0) = []
   \<and> comment_rows (committed (snd (add_comment B0 e1 ''note'' w0)))
       = [\<lparr>comment_text = ''note'', comment_user = None\<rparr>]
   \<and> calls (snd (add_comment B0 e1 ''note'' w0)) = [Commit]"
  by (simp add: e1_def e0_def w0_def add_comment_def add_label_def Let_def
      SQLSketch_get_def SearchIndex_first_def SQLEvent_get_or_create_def comments_append_def
      db_session_add_event_def db_session_commit_def comment_rows_def)

section \<open>Tags\<close>

lemma set_union_list_strings:
  "set_union_list (PList (map PStr T0)) (PList (map PStr T1)) = Inr (remdups (map PStr (T0 @ T1)))"
  by (auto simp: set_union_list_def list_all_iff)

lemma set_remdups_strings:
  "set (remdups (map PStr (T0 @ T1))) = PStr ` (set T0 \<union> set T1)"
  by auto

text \<open>What \<^verbatim>\<open>add_tags\<close> does on a handle whose snapshot holds the string tags \<open>T0\<close>.\<close>

lemma add_tags_strings:
  assumes "source self = PDict d"
    and "dict_get d ''tag'' (PList []) = Inr (PList (map PStr T0))"
  shows "add_tags self (PList (map PStr T1)) w =
             (Inr (),
              w\<lparr>calls := calls w @
                   [ImportEvent (index_name self) (event_type self) (event_id self)
                      (PDict [(''tag'', PList (remdups (map PStr (T0 @ T1))))])],
                queue := queue w @
                   [(index_name self, event_type self, event_id self,
                     PDict [(''tag'', PList (remdups (map PStr (T0 @ T1))))])]\<rparr>)"
proof -
  have "add_tags self (PList (map PStr T1)) w =
          Event_update self (PDict [(''tag'', PList (remdups (map PStr (T0 @ T1))))]) w"
    using assms set_union_list_strings [of T0 T1] by (simp add: add_tags_def)
  then show ?thesis
    by (simp add: Event_update_def import_event_def)
qed

text \<open>
  C4. On a handle whose snapshot is a dictionary holding the string tags \<open>T0\<close> under
  \<^verbatim>\<open>tag\<close> (or no such key, when \<open>T0\<close> is empty), \<^verbatim>\<open>add_tags(T1)\<close> returns normally
  and makes one call, an \<^verbatim>\<open>import_event\<close> for the handle's document that replaces the
  field \<^verbatim>\<open>tag\<close> by a list without duplicates whose members are exactly those of \<open>T0\<close>
  and \<open>T1\<close>; the update is enqueued, and nothing is read from the backend.
\<close>

theorem add_tags_enqueues_union:
  assumes "source self = PDict d"
    and "dict_get d ''tag'' (PList []) = Inr (PList (map PStr T0))"
  shows "\<exists>new_tags.
           add_tags self (PList (map PStr T1)) w =
             (Inr (),
              w\<lparr>calls := calls w @
                   [ImportEvent (index_name self) (event_type self) (event_id self)
                      (PDict [(''tag'', PList new_tags)])],
                queue := queue w @
                   [(index_name self, event_type self, event_id self,
                     PDict [(''tag'', PList new_tags)])]\<rparr>)
           \<and> set new_tags = PStr ` (set T0 \<union> set T1)
           \<and> distinct new_tags"
proof -
  let ?ts = "remdups (map PStr (T0 @ T1))"
  have "set ?ts = PStr ` (set T0 \<union> set T1)"
    by (rule set_remdups_strings)
  moreover have "distinct ?ts"
    by simp
  ultimately show ?thesis
    using add_tags_strings [OF assms, of T1 w] by blast
qed

theorem add_tags_enqueues_union_witness:
  "source e0 = PDict [(''message'', PStr ''login''), (''tag'', PList [PStr ''a'', PStr ''b''])]
   \<and> dict_get [(''message'', PStr ''login''), (''tag'', PList [PStr ''a'', PStr ''b''])] ''tag'' (PList [])
       = Inr (PList (map PStr [''a'', ''b'']))
   \<and> (\<exists>new_tags.
         add_tags e0 (PList (map PStr [''b'', ''c''])) w0 =
           (Inr (),
            w0\<lparr>calls := [ImportEvent (PStr ''idx'') (PStr ''doc'') (PStr ''7'')
                           (PDict [(''tag'', PList new_tags)])],
               queue := [(PStr ''idx'', PStr ''doc'', PStr ''7'', PDict [(''tag'', PList new_tags)])]\<rparr>)
         \<and> set new_tags = {PStr ''a'', PStr ''b'', PStr ''c''}
         \<and> distinct new_tags)"
proof -
  have s: "source e0 = PDict [(''message'', PStr ''login''), (''tag'', PList [PStr ''a'', PStr ''b''])]"
    by (simp add: e0_def)
  have g: "dict_get [(''message'', PStr ''login''), (''tag'', PList [PStr ''a'', PStr ''b''])] ''tag'' (PList [])
       = Inr (PList (map PStr [''a'', ''b'']))"
    by (simp add: dict_get_def)
  have c: "calls w0 = []" and q: "queue w0 = []"
    by (simp_all add: w0_def)
  have i: "index_name e0 = PStr ''idx''" "event_type e0 = PStr ''doc''" "event_id e0 = PStr ''7''"
    by (simp_all add: e0_def)
  have u: "PStr ` (set [''a'', ''b''] \<union> set [''b'', ''c'']) = {PStr ''a'', PStr ''b'', PStr ''c''}"
    by auto
  show ?thesis
    using add_tags_enqueues_union [OF s g, of "[''b'', ''c'']" w0] s g
    unfolding c q i u by simp
qed

text \<open>
  C9. A handle is a value: \<^verbatim>\<open>add_tags\<close> assigns no attribute and changes no part of
  \<^verbatim>\<open>self.source\<close>, so the call after it is made on the same handle \<open>self\<close>, with the
  same snapshot. Hence \<^verbatim>\<open>add_tags(T1)\<close> followed by \<^verbatim>\<open>add_tags(T2)\<close> on a handle
  whose snapshot holds \<open>T0\<close> enqueues two updates, the first with the members of \<open>T0\<close>
  and \<open>T1\<close>, the second and final one with the members of \<open>T0\<close> and \<open>T2\<close> only: a tag of
  \<open>T1\<close> that is in neither \<open>T0\<close> nor \<open>T2\<close> is not in it.
\<close>

theorem add_tags_twice_from_snapshot:
  assumes "source self = PDict d"
    and "dict_get d ''tag'' (PList []) = Inr (PList (map PStr T0))"
  shows "\<exists>ts1 ts2.
           fst (add_tags self (PList (map PStr T1)) w) = Inr ()
         \<and> fst (add_tags self (PList (map PStr T2)) (snd (add_tags self (PList (map PStr T1)) w))) = Inr ()
         \<and> queue (snd (add_tags self (PList (map PStr T2)) (snd (add_tags self (PList (map PStr T1)) w))))
             = queue w @
                 [(index_name self, event_type self, event_id self, PDict [(''tag'', PList ts1)]),
                  (index_name self, event_type self, event_id self, PDict [(''tag'', PList ts2)])]
         \<and> set ts1 = PStr ` (set T0 \<union> set T1)
         \<and> set ts2 = PStr ` (set T0 \<union> set T2)
         \<and> (\<forall>t \<in> set T1. t \<notin> set T0 \<and> t \<notin> set T2 \<longrightarrow> PStr t \<notin> set ts2)"
proof -
  let ?ts1 = "remdups (map PStr (T0 @ T1))"
  let ?ts2 = "remdups (map PStr (T0 @ T2))"
  let ?w1 = "snd (add_tags self (PList (map PStr T1)) w)"
  have a1: "fst (add_tags self (PList (map PStr T1)) w) = Inr ()"
    by (simp add: add_tags_strings [OF assms])
  have q1: "queue ?w1 = queue w @
      [(index_name self, event_type self, event_id self, PDict [(''tag'', PList ?ts1)])]"
    by (simp add: add_tags_strings [OF assms])
  have a2: "fst (add_tags self (PList (map PStr T2)) ?w1) = Inr ()"
    by (simp add: add_tags_strings [OF assms])
  have q2: "queue (snd (add_tags self (PList (map PStr T2)) ?w1)) = queue ?w1 @
      [(index_name self, event_type self, event_id self, PDict [(''tag'', PList ?ts2)])]"
    by (simp add: add_tags_strings [OF assms, of T2])
  have s1: "set ?ts1 = PStr ` (set T0 \<union> set T1)"
    by (rule set_remdups_strings)
  have s2: "set ?ts2 = PStr ` (set T0 \<union> set T2)"
    by (rule set_remdups_strings)
  have n: "\<forall>t \<in> set T1. t \<notin> set T0 \<and> t \<notin> set T2 \<longrightarrow> PStr t \<notin> set ?ts2"
    unfolding s2 by auto
  show ?thesis
    using a1 a2 q1 q2 s1 s2 n by (intro exI [of _ ?ts1] exI [of _ ?ts2]) simp
qed

theorem add_tags_twice_from_snapshot_witness:
  "source e0 = PDict [(''message'', PStr ''login''), (''tag'', PList [PStr ''a'', PStr ''b''])]
   \<and> dict_get [(''message'', PStr ''login''), (''tag'', PList [PStr ''a'', PStr ''b''])] ''tag'' (PList [])
       = Inr (PList (map PStr [''a'', ''b'']))
   \<and> (\<exists>ts1 ts2.
         queue (snd (add_tags e0 (PList (map PStr [''d''])) (snd (add_tags e0 (PList (map PStr [''c''])) w0))))
           = [(PStr ''idx'', PStr ''doc'', PStr ''7'', PDict [(''tag'', PList ts1)]),
              (PStr ''idx'', PStr ''doc'', PStr ''7'', PDict [(''tag'', PList ts2)])]
         \<and> set ts1 = {PStr ''a'', PStr ''b'', PStr ''c''}
         \<and> set ts2 = {PStr ''a'', PStr ''b'', PStr ''d''}
         \<and> PStr ''c'' \<notin> set ts2)"
proof -
  have s: "source e0 = PDict [(''message'', PStr ''login''), (''tag'', PList [PStr ''a'', PStr ''b''])]"
    by (simp add: e0_def)
  have g: "dict_get [(''message'', PStr ''login''), (''tag'', PList [PStr ''a'', PStr ''b''])] ''tag'' (PList [])
       = Inr (PList (map PStr [''a'', ''b'']))"
    by (simp add: dict_get_def)
  have q: "queue w0 = []"
    by (simp add: w0_def)
  have i: "index_name e0 = PStr ''idx''" "event_type e0 = PStr ''doc''" "event_id e0 = PStr ''7''"
    by (simp_all add: e0_def)
  have u: "PStr ` (set [''a'', ''b''] \<union> set [''c'']) = {PStr ''a'', PStr ''b'', PStr ''c''}"
     "PStr ` (set [''a'', ''b''] \<union> set [''d'']) = {PStr ''a'', PStr ''b'', PStr ''d''}"
    by auto
  from add_tags_twice_from_snapshot [OF s g, where ?T1.0 = "[''c'']" and ?T2.0 = "[''d'']" and w = w0]
  obtain ts1 ts2 where t:
    "queue (snd (add_tags e0 (PList (map PStr [''d''])) (snd (add_tags e0 (PList (map PStr [''c''])) w0))))
           = queue w0 @ [(index_name e0, event_type e0, event_id e0, PDict [(''tag'', PList ts1)]),
              (index_name e0, event_type e0, event_id e0, PDict [(''tag'', PList ts2)])]"
    "set ts1 = PStr ` (set [''a'', ''b''] \<union> set [''c''])"
    "set ts2 = PStr ` (set [''a'', ''b''] \<union> set [''d''])"
    by blast
  have "PStr ''c'' \<notin> set ts2"
    unfolding t u by simp
  with t [unfolded q i u] s g show ?thesis
    by auto
qed

section \<open>Refresh before search\<close>

lemma refresh_all_calls:
  "refresh_all ixs w = (Inr (), w\<lparr>calls := calls w @ map Refresh ixs\<rparr>)"
  by (induction ixs arbitrary: w) (simp_all add: refresh_def)

lemma yield_next_world:
  "snd (snd (yield_next self hits w)) = w"
  by (cases hits) (simp_all split: sum.splits)

lemma yield_next_generator:
  "\<exists>hs. fst (snd (yield_next self hits w)) = Suspended self hs
        \<or> fst (snd (yield_next self hits w)) = Exhausted"
  by (cases hits) (simp_all split: sum.splits)

lemma resume_started_calls:
  "g = Suspended self hits \<or> g = Exhausted \<Longrightarrow> snd (resume B n g w) = w"
proof (induction n arbitrary: g hits w)
  case 0
  then show ?case by simp
next
  case (Suc n)
  from Suc.prems show ?case
  proof
    assume g: "g = Suspended self hits"
    obtain r g1 w1 where y: "yield_next self hits w = (r, g1, w1)"
      by (cases "yield_next self hits w") auto
    from yield_next_world [of self hits w] y have w1: "w1 = w"
      by simp
    from yield_next_generator [of self hits w] y
    obtain hs where "g1 = Suspended self hs \<or> g1 = Exhausted"
      by auto
    from Suc.IH [OF this] g y w1 show ?thesis
      by simp
  next
    assume g: "g = Exhausted"
    then show ?thesis
      using Suc.IH [of Exhausted hits w] by simp
  qed
qed

lemma next_event_created:
  assumes "py_iter (if \<not> truthy indices then PList [an_index_name self] else indices) = Inr ixs"
  shows "calls (snd (snd (next_event B
            (event_stream self query_string query_filter return_fields indices) w))) =
          calls w @ map Refresh ixs @
            [SearchStream query_string
               (if \<not> truthy query_filter then PDict [] else query_filter)
               (if \<not> truthy indices then PList [an_index_name self] else indices)
               (if \<not> truthy return_fields then PStr ''message'' else return_fields)]"
    and "\<exists>hs. fst (snd (next_event B
            (event_stream self query_string query_filter return_fields indices) w)) = Suspended self hs
          \<or> fst (snd (next_event B
            (event_stream self query_string query_filter return_fields indices) w)) = Exhausted"
proof -
  let ?qf = "if \<not> truthy query_filter then PDict [] else query_filter"
  let ?rf = "if \<not> truthy return_fields then PStr ''message'' else return_fields"
  let ?ind = "if \<not> truthy indices then PList [an_index_name self] else indices"
  let ?w1 = "w\<lparr>calls := calls w @ map Refresh ixs\<rparr>"
  let ?w2 = "?w1\<lparr>calls := calls ?w1 @ [SearchStream query_string ?qf ?ind ?rf]\<rparr>"
  have n: "next_event B (event_stream self query_string query_filter return_fields indices) w =
      (case search_stream_result B ?w1 query_string ?qf ?ind ?rf of
         Inl e \<Rightarrow> (Inl e, Exhausted, ?w2)
       | Inr hits \<Rightarrow> yield_next self hits ?w2)"
    using assms
    by (simp add: event_stream_def Let_def refresh_all_calls search_stream_def split: sum.splits)
  show "calls (snd (snd (next_event B
            (event_stream self query_string query_filter return_fields indices) w))) =
          calls w @ map Refresh ixs @ [SearchStream query_string ?qf ?ind ?rf]"
    unfolding n by (simp add: yield_next_world split: sum.splits)
  show "\<exists>hs. fst (snd (next_event B
            (event_stream self query_string query_filter return_fields indices) w)) = Suspended self hs
          \<or> fst (snd (next_event B
            (event_stream self query_string query_filter return_fields indices) w)) = Exhausted"
    unfolding n using yield_next_generator by (simp split: sum.splits)
qed

text \<open>
  C8. A call of \<^verbatim>\<open>event_stream\<close> creates the generator; its body runs when the
  generator is first resumed. At that first resumption, whatever it yields, the call log
  has grown by one refresh for every index of the effective \<^verbatim>\<open>indices\<close> (the
  analyzer's own index when the argument is absent or empty), in order, followed by the
  one streaming search: every refresh is issued before the search and before an event is
  yielded. Resuming the generator further makes no call. A second \<^verbatim>\<open>event_stream\<close>,
  started after any number of events of the first were consumed, issues the refreshes and
  the search again.
\<close>

theorem event_stream_refreshes_before_search:
  assumes "py_iter (if \<not> truthy indices then PList [an_index_name self] else indices) = Inr ixs"
  shows "calls (snd (snd (next_event B
            (event_stream self query_string query_filter return_fields indices) w))) =
          calls w @ map Refresh ixs @
            [SearchStream query_string
               (if \<not> truthy query_filter then PDict [] else query_filter)
               (if \<not> truthy indices then PList [an_index_name self] else indices)
               (if \<not> truthy return_fields then PStr ''message'' else return_fields)]
    \<and> (\<not> truthy indices \<longrightarrow> ixs = [an_index_name self])
    \<and> (\<forall>n. snd (resume B n
              (fst (snd (next_event B
                 (event_stream self query_string query_filter return_fields indices) w)))
              (snd (snd (next_event B
                 (event_stream self query_string query_filter return_fields indices) w))))
           = snd (snd (next_event B
                 (event_stream self query_string query_filter return_fields indices) w)))
    \<and> (\<forall>n. calls (snd (snd (next_event B
              (event_stream self query_string query_filter return_fields indices)
              (snd (resume B n
                (fst (snd (next_event B
                   (event_stream self query_string query_filter return_fields indices) w)))
                (snd (snd (next_event B
                   (event_stream self query_string query_filter return_fields indices) w)))))))) =
          calls w @ map Refresh ixs @
            [SearchStream query_string
               (if \<not> truthy query_filter then PDict [] else query_filter)
               (if \<not> truthy indices then PList [an_index_name self] else indices)
               (if \<not> truthy return_fields then PStr ''message'' else return_fields)]
            @ map Refresh ixs @
            [SearchStream query_string
               (if \<not> truthy query_filter then PDict [] else query_filter)
               (if \<not> truthy indices then PList [an_index_name self] else indices)
               (if \<not> truthy return_fields then PStr ''message'' else return_fields)])"
proof -
  let ?g = "event_stream self query_string query_filter return_fields indices"
  let ?S = "SearchStream query_string
               (if \<not> truthy query_filter then PDict [] else query_filter)
               (if \<not> truthy indices then PList [an_index_name self] else indices)
               (if \<not> truthy return_fields then PStr ''message'' else return_fields)"
  let ?g1 = "fst (snd (next_event B ?g w))"
  let ?w1 = "snd (snd (next_event B ?g w))"
  have first: "\<And>v. calls (snd (snd (next_event B ?g v))) = calls v @ map Refresh ixs @ [?S]"
    by (rule next_event_created(1) [OF assms])
  obtain hs where started: "?g1 = Suspended self hs \<or> ?g1 = Exhausted"
    using next_event_created(2) [OF assms, of B query_string query_filter return_fields w] by blast
  have later: "snd (resume B n ?g1 ?w1) = ?w1" for n
    by (rule resume_started_calls [OF started])
  have dflt: "ixs = [an_index_name self]" if "\<not> truthy indices"
    using assms that by simp
  have second: "calls (snd (snd (next_event B ?g (snd (resume B n ?g1 ?w1))))) =
      calls w @ map Refresh ixs @ [?S] @ map Refresh ixs @ [?S]" for n
    unfolding later first by simp
  from first [of w] dflt later second show ?thesis
    by blast
qed

theorem event_stream_refreshes_before_search_witness:
  "py_iter (if \<not> truthy PNone then PList [an_index_name a0] else PNone) = Inr [PStr ''idx'']
   \<and> calls (snd (snd (next_event B0 (event_stream a0 (PStr ''*'') PNone PNone PNone) w0))) =
       [Refresh (PStr ''idx''),
        SearchStream (PStr ''*'') (PDict []) (PList [PStr ''idx'']) (PStr ''message'')]
   \<and> fst (next_event B0 (event_stream a0 (PStr ''*'') PNone PNone PNone) w0) =
       Inr (Some \<lparr>sketch_id = Some 1, event_id = PStr ''7'', event_type = PStr ''doc'',
                   index_name = PStr ''idx'', source = PDict [(''message'', PStr ''login'')]\<rparr>)"
proof -
  have p: "py_iter (if \<not> truthy PNone then PList [an_index_name a0] else PNone) = Inr [PStr ''idx'']"
    by (simp add: a0_def)
  have c: "calls w0 = []"
    by (simp add: w0_def)
  have i: "an_index_name a0 = PStr ''idx''"
    by (simp add: a0_def)
  have f: "fst (next_event B0 (event_stream a0 (PStr ''*'') PNone PNone PNone) w0) =
       Inr (Some \<lparr>sketch_id = Some 1, event_id = PStr ''7'', event_type = PStr ''doc'',
                   index_name = PStr ''idx'', source = PDict [(''message'', PStr ''login'')]\<rparr>)"
    by (simp add: event_stream_def Let_def a0_def refresh_def search_stream_def B0_def
        Event_init_def dict_get_def)
  from event_stream_refreshes_before_search [OF p, of B0 "PStr ''*''" PNone PNone w0]
  have "calls (snd (snd (next_event B0 (event_stream a0 (PStr ''*'') PNone PNone PNone) w0))) =
       calls w0 @ map Refresh [PStr ''idx''] @
        [SearchStream (PStr ''*'') (PDict []) (PList [an_index_name a0]) (PStr ''message'')]"
    by simp
  with p f show ?thesis
    unfolding c i by simp
qed

end
